theory Spec2Isabelle
  imports Main "HOL-Library.Word"
begin

unbundle bit_operations_syntax

section \<open>Go values used by the interpreter\<close>

text \<open>
  Go's \<^verbatim>\<open>int64\<close> and \<^verbatim>\<open>uint64\<close> are 64-bit words; \<open>sint\<close> reads the signed value
  of the first, \<open>unat\<close> the unsigned value of the second. A Go \<^verbatim>\<open>string\<close> is a sequence of
  bytes, which is what \<open>string\<close> (a list of 8-bit \<open>char\<close>) is. Go's \<^verbatim>\<open>int\<close>, the type of
  \<^verbatim>\<open>len\<close> and of slice indices, is modelled by \<open>int\<close>: lengths are far below \<open>2 ^ 63\<close>.
\<close>

type_synonym int64 = "64 word"
type_synonym uint64 = "64 word"

text \<open>The conversion \<^verbatim>\<open>uint64(v)\<close> of an \<^verbatim>\<open>int64\<close>: the signed value, reduced modulo \<open>2 ^ 64\<close>.\<close>

definition uint64 :: "int64 \<Rightarrow> uint64" where
  "uint64 v = word_of_int (sint v)"

text \<open>The conversion \<^verbatim>\<open>int64(n)\<close> of an \<^verbatim>\<open>int\<close>.\<close>

definition int64 :: "int \<Rightarrow> int64" where
  "int64 n = word_of_int n"

subsection \<open>Standard library: \<^verbatim>\<open>hash/fnv\<close>, 64-bit FNV-1a\<close>

definition offset64 :: uint64 where
  "offset64 = 14695981039346656037"

definition prime64 :: uint64 where
  "prime64 = 1099511628211"

text \<open>\<^verbatim>\<open>(*sum64a).Write\<close>: for every byte, xor it into the hash, then multiply by the prime.\<close>

fun sum64a_Write :: "uint64 \<Rightarrow> string \<Rightarrow> uint64" where
  "sum64a_Write hash [] = hash"
| "sum64a_Write hash (c # data) = sum64a_Write ((hash XOR of_nat (of_char c)) * prime64) data"

text \<open>\<^verbatim>\<open>h := fnv.New64a(); h.Write(data); h.Sum64()\<close>.\<close>

definition fnv64a :: "string \<Rightarrow> uint64" where
  "fnv64a data = sum64a_Write offset64 data"

subsection \<open>Standard library: \<^verbatim>\<open>unicode/utf8\<close>, the encoding of a text as a Go string\<close>

text \<open>
  A rune is a code point (\<^verbatim>\<open>int32\<close>). \<^verbatim>\<open>utf8.EncodeRune\<close> writes one to four bytes;
  a negative rune, one beyond \<^verbatim>\<open>MaxRune\<close> and a surrogate half are written as
  \<^verbatim>\<open>RuneError\<close> (U+FFFD, three bytes).
\<close>

definition byte :: "int \<Rightarrow> char" where
  "byte i = char_of (nat (i mod 256))"

definition MaxRune :: int where
  "MaxRune = 0x10FFFF"

definition EncodeRune :: "int \<Rightarrow> string" where
  "EncodeRune r =
    (if 0 \<le> r \<and> r \<le> 0x7F then [byte r]
     else if 0 \<le> r \<and> r \<le> 0x7FF then [byte (0xC0 + r div 64), byte (0x80 + r mod 64)]
     else if r < 0 \<or> MaxRune < r \<or> (0xD800 \<le> r \<and> r \<le> 0xDFFF)
       then [byte 0xEF, byte 0xBF, byte 0xBD]
     else if r \<le> 0xFFFF
       then [byte (0xE0 + r div 4096), byte (0x80 + (r div 64) mod 64), byte (0x80 + r mod 64)]
     else [byte (0xF0 + r div 262144), byte (0x80 + (r div 4096) mod 64),
           byte (0x80 + (r div 64) mod 64), byte (0x80 + r mod 64)])"

text \<open>The Go string holding a text: the concatenated encodings of its characters.\<close>

definition utf8_string :: "int list \<Rightarrow> string" where
  "utf8_string runes = concat (map EncodeRune runes)"

subsection \<open>Standard library: \<^verbatim>\<open>fmt\<close> and \<^verbatim>\<open>strings\<close>\<close>

function digits :: "nat \<Rightarrow> string" where
  "digits n = (if n < 10 then [char_of (48 + n)] else digits (n div 10) @ [char_of (48 + n mod 10)])"
  by pat_completeness auto
termination
  by (relation "measure id") auto

declare digits.simps [simp del]

text \<open>\<^verbatim>\<open>fmt.Sprintf("%d", i)\<close> and \<^verbatim>\<open>fmt.Sprintf("%t", b)\<close>.\<close>

definition Sprintf_d :: "int \<Rightarrow> string" where
  "Sprintf_d i = (if i < 0 then CHR ''-'' # digits (nat (- i)) else digits (nat i))"

definition Sprintf_t :: "bool \<Rightarrow> string" where
  "Sprintf_t b = (if b then ''true'' else ''false'')"

text \<open>\<^verbatim>\<open>strings.Join(elems, sep)\<close>.\<close>

fun Join :: "string list \<Rightarrow> string \<Rightarrow> string" where
  "Join [] sep = []"
| "Join [x] sep = x"
| "Join (x # y # ys) sep = x @ sep @ Join (y # ys) sep"

section \<open>The object system: \<^verbatim>\<open>object/object.go\<close>\<close>

type_synonym ObjectType = string

definition INTEGER_OBJ :: ObjectType where "INTEGER_OBJ = ''INTEGER''"
definition BOOLEAN_OBJ :: ObjectType where "BOOLEAN_OBJ = ''BOOLEAN''"
definition NULL_OBJ :: ObjectType where "NULL_OBJ = ''NULL''"
definition RETURN_VALUE_OBJ :: ObjectType where "RETURN_VALUE_OBJ = ''RETURN_VALUE''"
definition ERROR_OBJ :: ObjectType where "ERROR_OBJ = ''ERROR''"
definition FUNCTION_OBJ :: ObjectType where "FUNCTION_OBJ = ''FUNCTION''"
definition STRING_OBJ :: ObjectType where "STRING_OBJ = ''STRING''"
definition BUILTIN_OBJ :: ObjectType where "BUILTIN_OBJ = ''BUILTIN''"
definition ARRAY_OBJ :: ObjectType where "ARRAY_OBJ = ''ARRAY''"
definition HASH_OBJ :: ObjectType where "HASH_OBJ = ''HASH''"

record HashKey =
  Type :: ObjectType
  Value :: uint64

text \<open>
  A \<^verbatim>\<open>Function\<close> holds pointers: to the identifiers of its parameters and to its body, which
  are nodes of the syntax tree (package \<^verbatim>\<open>ast\<close>), and to its \<^verbatim>\<open>Environment\<close>. A pointer is
  an address. A \<^verbatim>\<open>Builtin\<close> holds a native function: one of the six closures of the table in
  \<^verbatim>\<open>evaluator/builtins.go\<close>.
\<close>

type_synonym Identifier_ptr = nat
type_synonym BlockStatement_ptr = nat
type_synonym Environment_ptr = nat

datatype BuiltInFunction = puts_Fn | len_Fn | first_Fn | last_Fn | rest_Fn | push_Fn

text \<open>
  The values of interface type \<^verbatim>\<open>Object\<close>: one constructor for each struct that implements
  it, with the struct's fields. An \<open>Object\<close> is never Go's nil interface: an interface
  value that can be nil (an argument of a built-in function, the result of \<^verbatim>\<open>Eval\<close>, the
  zero value of a map lookup) is an \<open>Object option\<close>, with \<open>None\<close> for nil; the interface
  values held inside an object are objects. The pairs of a \<^verbatim>\<open>Hash\<close> are listed in the
  order in which the Go map is iterated.
\<close>

datatype Object =
    Integer int64
  | Boolean bool
  | Null
  | ReturnValue Object
  | Function "Identifier_ptr list" BlockStatement_ptr Environment_ptr
  | Error string
  | String string
  | Builtin BuiltInFunction
  | Array "Object list"
  | Hash "(HashKey \<times> HashPair) list"
and HashPair = HashPair Object Object

text \<open>The method \<^verbatim>\<open>Type\<close> of the interface \<^verbatim>\<open>Object\<close>.\<close>

fun Object_Type :: "Object \<Rightarrow> ObjectType" where
  "Object_Type (Integer v) = INTEGER_OBJ"
| "Object_Type (Boolean b) = BOOLEAN_OBJ"
| "Object_Type Null = NULL_OBJ"
| "Object_Type (ReturnValue v) = RETURN_VALUE_OBJ"
| "Object_Type (Function ps body env) = FUNCTION_OBJ"
| "Object_Type (Error m) = ERROR_OBJ"
| "Object_Type (String s) = STRING_OBJ"
| "Object_Type (Builtin f) = BUILTIN_OBJ"
| "Object_Type (Array es) = ARRAY_OBJ"
| "Object_Type (Hash ps) = HASH_OBJ"

text \<open>
  What \<^verbatim>\<open>Inspect\<close> calls outside this package: the \<^verbatim>\<open>String\<close> methods of the two
  syntax-tree nodes, and \<^verbatim>\<open>fmt.Sprintf("%v", obj)\<close> on an object, whose text shows addresses.
  They are parameters of the model.
\<close>

record externals =
  Identifier_String :: "Identifier_ptr \<Rightarrow> string"
  BlockStatement_String :: "BlockStatement_ptr \<Rightarrow> string"
  Sprintf_v :: "Object \<Rightarrow> string"

text \<open>The method \<^verbatim>\<open>Inspect\<close> of the interface \<^verbatim>\<open>Object\<close>.\<close>

fun Object_Inspect :: "externals \<Rightarrow> Object \<Rightarrow> string"
and HashPair_Inspect :: "externals \<Rightarrow> HashPair \<Rightarrow> string" where
  "Object_Inspect X (Integer v) = Sprintf_d (sint v)"
| "Object_Inspect X (Boolean b) = Sprintf_t b"
| "Object_Inspect X Null = ''null''"
| "Object_Inspect X (ReturnValue v) = Sprintf_v X v"
| "Object_Inspect X (Function ps body env) =
     ''fn'' @ ''('' @ Join (map (Identifier_String X) ps) '', '' @ '') {\<newline>''
     @ BlockStatement_String X body @ ''\<newline>}''"
| "Object_Inspect X (Error m) = ''ERROR: '' @ m"
| "Object_Inspect X (String s) = s"
| "Object_Inspect X (Builtin f) = ''builtin function''"
| "Object_Inspect X (Array es) = ''['' @ Join (map (Object_Inspect X) es) '', '' @ '']''"
| "Object_Inspect X (Hash ps) =
     ''{'' @ Join (map (\<lambda>p. HashPair_Inspect X (snd p)) ps) '', '' @ ''}''"
| "HashPair_Inspect X (HashPair k v) = Object_Inspect X k @ '': '' @ Object_Inspect X v"

subsection \<open>Hash keys\<close>

text \<open>\<^verbatim>\<open>(b *Boolean) HashKey()\<close>, on the struct's field.\<close>

definition Boolean_HashKey :: "bool \<Rightarrow> HashKey" where
  "Boolean_HashKey b =
     (let value = (if b then 1 else 0)
      in \<lparr>Type = Object_Type (Boolean b), Value = value\<rparr>)"

text \<open>\<^verbatim>\<open>(i *Integer) HashKey()\<close>.\<close>

definition Integer_HashKey :: "int64 \<Rightarrow> HashKey" where
  "Integer_HashKey i = \<lparr>Type = Object_Type (Integer i), Value = uint64 i\<rparr>"

text \<open>\<^verbatim>\<open>(s *String) HashKey()\<close>.\<close>

definition String_HashKey :: "string \<Rightarrow> HashKey" where
  "String_HashKey s = \<lparr>Type = Object_Type (String s), Value = fnv64a s\<rparr>"

text \<open>
  The interface \<^verbatim>\<open>Hashable\<close>: the three types with a \<^verbatim>\<open>HashKey\<close> method implement it, an
  object of any other type does not (\<open>None\<close>).
\<close>

fun Hashable_HashKey :: "Object \<Rightarrow> HashKey option" where
  "Hashable_HashKey (Boolean b) = Some (Boolean_HashKey b)"
| "Hashable_HashKey (Integer i) = Some (Integer_HashKey i)"
| "Hashable_HashKey (String s) = Some (String_HashKey s)"
| "Hashable_HashKey obj = None"

text \<open>
  Two objects have the same type and the same value: the same type tag and, for the three
  hashable types, the same field (the same integer, truth value or text).
\<close>

fun same_value :: "Object \<Rightarrow> Object \<Rightarrow> bool" where
  "same_value (Integer i) (Integer j) = (sint i = sint j)"
| "same_value (Boolean b) (Boolean c) = (b = c)"
| "same_value (String s) (String t) = (s = t)"
| "same_value a b = False"

definition semantically_equal :: "Object \<Rightarrow> Object \<Rightarrow> bool" where
  "semantically_equal a b = (Object_Type a = Object_Type b \<and> same_value a b)"

section \<open>Environments: \<^verbatim>\<open>object/environment.go\<close>\<close>

text \<open>The struct has one field, a Go map from names to objects.\<close>

record Environment =
  store :: "string \<rightharpoonup> Object"

definition NewEnvironment :: Environment where
  "NewEnvironment = \<lparr>store = Map.empty\<rparr>"

text \<open>
  \<^verbatim>\<open>o, ok := e.store[name]; return o, ok\<close>. A Go map lookup gives the value and \<^verbatim>\<open>true\<close>,
  or the zero value (the nil interface, \<open>None\<close>) and \<^verbatim>\<open>false\<close>.
\<close>

definition Get :: "Environment \<Rightarrow> string \<Rightarrow> Object option \<times> bool" where
  "Get e name =
     (case store e name of
        Some obj \<Rightarrow> (Some obj, True)
      | None \<Rightarrow> (None, False))"

text \<open>
  \<^verbatim>\<open>e.store[name] = val; return val\<close>. The receiver is a pointer and the map is updated in
  place: the model returns the environment after the call next to the result.
\<close>

definition Set :: "Environment \<Rightarrow> string \<Rightarrow> Object \<Rightarrow> Object \<times> Environment" where
  "Set e name val = (val, e\<lparr>store := (store e)(name \<mapsto> val)\<rparr>)"

subsection \<open>The chained environment the specification describes\<close>

text \<open>
  The specification's wording, for comparison with \<open>Get\<close>: an environment is a local store
  plus an optional enclosing environment, and lookup searches the local store, then walks
  outward through the chain until the name is found or the chain is exhausted.
\<close>

datatype ChainedEnvironment = ChainedEnvironment Environment "ChainedEnvironment option"

fun Get_chained :: "ChainedEnvironment \<Rightarrow> string \<Rightarrow> Object option \<times> bool" where
  "Get_chained (ChainedEnvironment e None) name =
     (case store e name of Some obj \<Rightarrow> (Some obj, True) | None \<Rightarrow> (None, False))"
| "Get_chained (ChainedEnvironment e (Some outer)) name =
     (case store e name of Some obj \<Rightarrow> (Some obj, True) | None \<Rightarrow> Get_chained outer name)"

text \<open>The innermost scope of a chain: the environment the lookup starts from.\<close>

fun innermost :: "ChainedEnvironment \<Rightarrow> Environment" where
  "innermost (ChainedEnvironment e outer) = e"

section \<open>Built-in functions: \<^verbatim>\<open>evaluator/builtins.go\<close>\<close>

subsection \<open>Go's slice operations, with their run-time panics\<close>

text \<open>
  A run of a built-in function either returns or stops in a run-time panic;
  \<open>nil_dereference\<close> is the panic of a method call on a nil interface (invalid memory
  address or nil pointer dereference). The last kind, \<open>nil_element\<close>, is not a panic of
  Go: it marks a run that leaves a nil interface in a slice that becomes the elements of
  an \<^verbatim>\<open>Array\<close>. Go returns that array, and \<^verbatim>\<open>Inspect\<close> on it dereferences nil later; the
  \<open>Object\<close> type has no such value, so the run ends there.
\<close>

datatype panic =
    index_out_of_range
  | slice_bounds_out_of_range
  | makeslice_len_out_of_range
  | nil_dereference
  | nil_element

type_synonym 'a result = "panic + 'a"

definition and_then :: "'a result \<Rightarrow> ('a \<Rightarrow> 'b result) \<Rightarrow> 'b result" where
  "and_then r f = (case r of Inl p \<Rightarrow> Inl p | Inr v \<Rightarrow> f v)"

text \<open>\<^verbatim>\<open>len(xs)\<close>, of a slice or of a string.\<close>

definition len :: "'a list \<Rightarrow> int" where
  "len xs = int (length xs)"

text \<open>\<^verbatim>\<open>xs[i]\<close>.\<close>

definition index :: "'a list \<Rightarrow> int \<Rightarrow> 'a result" where
  "index xs i = (if 0 \<le> i \<and> i < len xs then Inr (xs ! nat i) else Inl index_out_of_range)"

text \<open>\<^verbatim>\<open>make([]object.Object, n)\<close>: a fresh slice of \<open>n\<close> nil interfaces.\<close>

definition make_slice :: "int \<Rightarrow> Object option list result" where
  "make_slice n = (if n < 0 then Inl makeslice_len_out_of_range else Inr (replicate (nat n) None))"

text \<open>\<^verbatim>\<open>xs[low:]\<close>.\<close>

definition slice_from :: "'a list \<Rightarrow> int \<Rightarrow> 'a list result" where
  "slice_from xs low =
     (if 0 \<le> low \<and> low \<le> len xs then Inr (drop (nat low) xs) else Inl slice_bounds_out_of_range)"

text \<open>
  \<^verbatim>\<open>copy(dst, src)\<close> writes the first \<open>min (len dst) (len src)\<close> elements of \<open>src\<close> over
  those of \<open>dst\<close> and leaves \<open>src\<close> as it is: the function gives \<open>dst\<close> after the call.
\<close>

definition copy :: "'a list \<Rightarrow> 'a list \<Rightarrow> 'a list" where
  "copy dst src = (let n = min (length dst) (length src) in take n src @ drop n dst)"

text \<open>\<^verbatim>\<open>xs[i] = v\<close>: the slice after the assignment.\<close>

definition assign :: "'a list \<Rightarrow> int \<Rightarrow> 'a \<Rightarrow> 'a list result" where
  "assign xs i v = (if 0 \<le> i \<and> i < len xs then Inr (xs[nat i := v]) else Inl index_out_of_range)"

text \<open>The field \<^verbatim>\<open>Elements\<close> of an \<^verbatim>\<open>Array\<close>, read as a slice of interfaces.\<close>

definition slice_of :: "Object list \<Rightarrow> Object option list" where
  "slice_of Elements = map Some Elements"

text \<open>\<^verbatim>\<open>&object.Array{Elements: newElements}\<close>.\<close>

definition new_Array :: "Object option list \<Rightarrow> Object result" where
  "new_Array Elements =
     (if None \<in> set Elements then Inl nil_element else Inr (Array (map the Elements)))"

text \<open>The method calls \<^verbatim>\<open>arg.Type()\<close> and \<^verbatim>\<open>arg.Inspect()\<close> on an interface value.\<close>

definition call_Type :: "Object option \<Rightarrow> ObjectType result" where
  "call_Type arg = (case arg of None \<Rightarrow> Inl nil_dereference | Some obj \<Rightarrow> Inr (Object_Type obj))"

definition call_Inspect :: "externals \<Rightarrow> Object option \<Rightarrow> string result" where
  "call_Inspect X arg =
     (case arg of None \<Rightarrow> Inl nil_dereference | Some obj \<Rightarrow> Inr (Object_Inspect X obj))"

subsection \<open>What the table takes from \<^verbatim>\<open>evaluator/evaluator.go\<close>\<close>

text \<open>
  Modelled from the spec: the variable \<^verbatim>\<open>NULL\<close> of package \<^verbatim>\<open>evaluator\<close>, declared outside
  \<^verbatim>\<open>builtins.go\<close>. The specification speaks of canonical shared True/False/Null instances
  and of \<^verbatim>\<open>first([])\<close> giving Null: \<open>NULL\<close> is the \<^verbatim>\<open>Null\<close> object.
\<close>

definition NULL :: Object where
  "NULL = Null"

text \<open>
  Modelled from the spec: the function \<^verbatim>\<open>newError\<close> of package \<^verbatim>\<open>evaluator\<close>, declared
  outside \<^verbatim>\<open>builtins.go\<close>. The specification has built-ins return Error objects on arity
  and type violations, an Error object holding a message: \<open>newError\<close> gives the \<^verbatim>\<open>Error\<close>
  object with the formatted message. The formatting (\<^verbatim>\<open>%d\<close>, \<^verbatim>\<open>%s\<close>) is written out where
  \<open>newError\<close> is called.
\<close>

definition newError :: "string \<Rightarrow> Object" where
  "newError message = Error message"

subsection \<open>The six functions\<close>

text \<open>
  A built-in function receives its arguments as interface values, each nil or a pointer
  to an object, and may write to the standard output. What the call can change is passed
  through it: the arguments, as they are when the function is entered and as they are
  when it returns, and the bytes written to standard output so far.
\<close>

record call_state =
  args :: "Object option list"
  stdout :: string

text \<open>\<^verbatim>\<open>fmt.Println(s)\<close> on standard output.\<close>

definition Println :: "string \<Rightarrow> string \<Rightarrow> string" where
  "Println out s = out @ s @ ''\<newline>''"

text \<open>\<^verbatim>\<open>for _, arg := range args { fmt.Println(arg.Inspect()) }\<close>: the standard output after it.\<close>

fun puts_range :: "externals \<Rightarrow> string \<Rightarrow> Object option list \<Rightarrow> string result" where
  "puts_range X out [] = Inr out"
| "puts_range X out (arg # rest) =
     and_then (call_Inspect X arg) (\<lambda>line. puts_range X (Println out line) rest)"

definition builtin_puts :: "externals \<Rightarrow> call_state \<Rightarrow> (Object \<times> call_state) result" where
  "builtin_puts X s =
     and_then (puts_range X (stdout s) (args s)) (\<lambda>out. Inr (NULL, s\<lparr>stdout := out\<rparr>))"

definition builtin_len :: "call_state \<Rightarrow> (Object \<times> call_state) result" where
  "builtin_len s =
     (if len (args s) \<noteq> 1
      then Inr (newError (''wrong number of arguments. got='' @ Sprintf_d (len (args s)) @ '', want=1''), s)
      else and_then (index (args s) 0) (\<lambda>arg.
        case arg of
          Some (String val) \<Rightarrow> Inr (Integer (int64 (len val)), s)
        | Some (Array Elements) \<Rightarrow> Inr (Integer (int64 (len Elements)), s)
        | _ \<Rightarrow> and_then (index (args s) 0) (\<lambda>arg0.
              and_then (call_Type arg0) (\<lambda>tag.
              Inr (newError (''argument to `len` not supported, got '' @ tag), s)))))"

definition builtin_first :: "call_state \<Rightarrow> (Object \<times> call_state) result" where
  "builtin_first s =
     (if len (args s) \<noteq> 1
      then Inr (newError (''wrong number of arguments. got='' @ Sprintf_d (len (args s)) @ ''. want=1''), s)
      else and_then (index (args s) 0) (\<lambda>arg.
        case arg of
          Some (Array Elements) \<Rightarrow>
            (if len Elements = 0 then Inr (NULL, s)
             else and_then (index Elements 0) (\<lambda>element. Inr (element, s)))
        | _ \<Rightarrow> and_then (call_Type arg) (\<lambda>tag.
              Inr (newError (''argument to `first` must be ARRAY, got '' @ tag), s))))"

definition builtin_last :: "call_state \<Rightarrow> (Object \<times> call_state) result" where
  "builtin_last s =
     (if len (args s) \<noteq> 1
      then Inr (newError (''wrong number of arguments. got='' @ Sprintf_d (len (args s)) @ ''. want=1''), s)
      else and_then (index (args s) 0) (\<lambda>arg.
        case arg of
          Some (Array Elements) \<Rightarrow>
            (if len Elements \<le> 0 then Inr (NULL, s)
             else and_then (index Elements (len Elements - 1)) (\<lambda>element. Inr (element, s)))
        | _ \<Rightarrow> and_then (call_Type arg) (\<lambda>tag.
              Inr (newError (''argument to `last` must be ARRAY, got '' @ tag), s))))"

definition builtin_rest :: "call_state \<Rightarrow> (Object \<times> call_state) result" where
  "builtin_rest s =
     (if len (args s) \<noteq> 1
      then Inr (newError (''wrong number of arguments. got='' @ Sprintf_d (len (args s)) @ ''. want=1''), s)
      else and_then (index (args s) 0) (\<lambda>arg.
        case arg of
          Some (Array Elements) \<Rightarrow>
            (let length' = len Elements in
             if length' \<le> 0 then Inr (NULL, s)
             else and_then (make_slice (length' - 1)) (\<lambda>newElements.
                  and_then (slice_from (slice_of Elements) 1) (\<lambda>tail.
                  let newElements = copy newElements tail in
                  and_then (new_Array newElements) (\<lambda>array. Inr (array, s)))))
        | _ \<Rightarrow> and_then (call_Type arg) (\<lambda>tag.
              Inr (newError (''argument to `rest` must be ARRAY, got '' @ tag), s))))"

definition builtin_push :: "call_state \<Rightarrow> (Object \<times> call_state) result" where
  "builtin_push s =
     (if len (args s) \<noteq> 2
      then Inr (newError (''wrong number of arguments. got='' @ Sprintf_d (len (args s)) @ ''. want=2''), s)
      else and_then (index (args s) 0) (\<lambda>arg.
        case arg of
          Some (Array Elements) \<Rightarrow>
            (let length' = len Elements in
             and_then (make_slice (length' + 1)) (\<lambda>newElements.
             let newElements = copy newElements (slice_of Elements) in
             and_then (index (args s) 1) (\<lambda>arg1.
             and_then (assign newElements length' arg1) (\<lambda>newElements.
             and_then (new_Array newElements) (\<lambda>array. Inr (array, s))))))
        | _ \<Rightarrow> and_then (call_Type arg) (\<lambda>tag.
              Inr (newError (''argument to `push` must be ARRAY, got '' @ tag), s))))"

text \<open>The table \<^verbatim>\<open>builtins\<close>, from names to the \<^verbatim>\<open>Fn\<close> field of each \<^verbatim>\<open>Builtin\<close>.\<close>

definition builtins :: "string \<rightharpoonup> BuiltInFunction" where
  "builtins = [''puts'' \<mapsto> puts_Fn, ''len'' \<mapsto> len_Fn, ''first'' \<mapsto> first_Fn,
               ''last'' \<mapsto> last_Fn, ''rest'' \<mapsto> rest_Fn, ''push'' \<mapsto> push_Fn]"

text \<open>Calling the native function a \<^verbatim>\<open>Builtin\<close> holds.\<close>

fun Fn :: "externals \<Rightarrow> BuiltInFunction \<Rightarrow> call_state \<Rightarrow> (Object \<times> call_state) result" where
  "Fn X puts_Fn s = builtin_puts X s"
| "Fn X len_Fn s = builtin_len s"
| "Fn X first_Fn s = builtin_first s"
| "Fn X last_Fn s = builtin_last s"
| "Fn X rest_Fn s = builtin_rest s"
| "Fn X push_Fn s = builtin_push s"

section \<open>The read-eval-print loop: \<^verbatim>\<open>repl/repl.go\<close>\<close>

text \<open>
  The loop calls three packages that are outside this development: the lexer, the parser
  and the evaluator. Their functions are parameters, and a call of one is taken to return.
  \<open>ParseProgram\<close> gives the program and the parser after the call, which holds the errors
  it met; \<open>Eval\<close> gives the result, nil (\<open>None\<close>) when there is none, and the environment
  after the call, since it receives a pointer to it.
\<close>

record ('lexer, 'parser, 'program) packages =
  lexer_New :: "string \<Rightarrow> 'lexer"
  parser_New :: "'lexer \<Rightarrow> 'parser"
  ParseProgram :: "'parser \<Rightarrow> 'program \<times> 'parser"
  Errors :: "'parser \<Rightarrow> string list"
  Eval :: "'program \<Rightarrow> Environment \<Rightarrow> Object option \<times> Environment"

definition PROMPT :: string where
  "PROMPT = ''>>''"

definition MONKEY_FACE :: string where
  "MONKEY_FACE =
      ''            __,__'' @ ''\<newline>'' @
      ''   .--.  .-'' @ [CHR 0x22] @ ''     '' @ [CHR 0x22] @ ''-.  .--.'' @ ''\<newline>'' @
      ''  / .. '' @ [CHR 0x5C] @ ''/  .-. .-.  '' @ [CHR 0x5C] @ ''/ .. '' @ [CHR 0x5C] @ ''\<newline>'' @
      '' | |  '' @ [CHR 0x27] @ ''|  /   Y   '' @ [CHR 0x5C] @ ''  |'' @ [CHR 0x27] @ ''  | |'' @ ''\<newline>'' @
      '' | '' @ [CHR 0x5C] @ ''   '' @ [CHR 0x5C] @ ''  '' @ [CHR 0x5C] @ '' 0 | 0 /  /   / |'' @ ''\<newline>'' @
      ''  '' @ [CHR 0x5C] @ '' '' @ [CHR 0x27] @ ''- ,'' @ [CHR 0x5C] @ ''.-'' @ [CHR 0x22] @ [CHR 0x22] @ [CHR 0x22] @ [CHR 0x22] @ [CHR 0x22] @ [CHR 0x22] @ [CHR 0x22] @ ''-./, -'' @ [CHR 0x27] @ '' /'' @ ''\<newline>'' @
      ''   '' @ [CHR 0x27] @ [CHR 0x27] @ ''-'' @ [CHR 0x27] @ '' /_   ^ ^   _'' @ [CHR 0x5C] @ '' '' @ [CHR 0x27] @ ''-'' @ [CHR 0x27] @ [CHR 0x27] @ ''\<newline>'' @
      ''       |  '' @ [CHR 0x5C] @ ''._   _./  |'' @ ''\<newline>'' @
      ''       '' @ [CHR 0x5C] @ ''   '' @ [CHR 0x5C] @ '' '' @ [CHR 0x27] @ ''~'' @ [CHR 0x27] @ '' /   /'' @ ''\<newline>'' @
      ''        '' @ [CHR 0x27] @ ''._ '' @ [CHR 0x27] @ ''-=-'' @ [CHR 0x27] @ '' _.'' @ [CHR 0x27] @ ''\<newline>'' @
      ''           '' @ [CHR 0x27] @ ''-----'' @ [CHR 0x27] @ ''\<newline>''"

text \<open>\<^verbatim>\<open>printParserErrors(out, errors)\<close>: the writer's content after the call.\<close>

definition printParserErrors :: "string \<Rightarrow> string list \<Rightarrow> string" where
  "printParserErrors out errors =
     (let out = out @ MONKEY_FACE;
          out = out @ ''Whoos! We ran into some monkey business here!\<newline>'';
          out = out @ '' parser errors:\<newline>''
      in foldl (\<lambda>out err. out @ [CHR 0x09] @ err @ ''\<newline>'') out errors)"

text \<open>
  The \<^verbatim>\<open>for\<close> loop of \<^verbatim>\<open>Start\<close>. The reader is the list of the lines that the scanner yields
  before \<^verbatim>\<open>Scan\<close> returns false; the writer is the text written to it so far. The loop ends
  when the lines are used up, and the model keeps the environment it ends with.
\<close>

fun loop ::
  "('lexer, 'parser, 'program) packages \<Rightarrow> externals \<Rightarrow> Environment \<Rightarrow> string \<Rightarrow> string list
   \<Rightarrow> Environment \<times> string" where
  "loop P X env out [] = (env, out @ PROMPT)"
| "loop P X env out (line # lines) =
     (let out = out @ PROMPT;
          l = lexer_New P line;
          p = parser_New P l;
          (program, p) = ParseProgram P p
      in if len (Errors P p) \<noteq> 0
         then loop P X env (printParserErrors out (Errors P p)) lines
         else (let (evaluated, env) = Eval P program env
               in case evaluated of
                    Some obj \<Rightarrow> loop P X env (out @ Object_Inspect X obj @ ''\<newline>'') lines
                  | None \<Rightarrow> loop P X env out lines))"

text \<open>\<^verbatim>\<open>Start(in, out)\<close>: one environment, made before the loop; the writer after the session.\<close>

definition Start ::
  "('lexer, 'parser, 'program) packages \<Rightarrow> externals \<Rightarrow> string list \<Rightarrow> string \<Rightarrow> string" where
  "Start P X input out = snd (loop P X NewEnvironment out input)"

subsection \<open>The session the specification describes\<close>

text \<open>
  The specification's wording, for comparison with \<open>loop\<close>. For each line a fresh parser
  over a fresh lexer parses the program.
\<close>

definition parse :: "('lexer, 'parser, 'program) packages \<Rightarrow> string \<Rightarrow> 'program \<times> 'parser" where
  "parse P line = ParseProgram P (parser_New P (lexer_New P line))"

text \<open>
  If the parser's error list is not empty the program is not evaluated, so the environment
  stays as it is; otherwise the program is evaluated against the session's environment.
\<close>

definition line_env ::
  "('lexer, 'parser, 'program) packages \<Rightarrow> Environment \<Rightarrow> string \<Rightarrow> Environment" where
  "line_env P env line =
     (if Errors P (snd (parse P line)) \<noteq> [] then env
      else snd (Eval P (fst (parse P line)) env))"

text \<open>
  What is printed for the line: all the errors, under the banner, if there are any;
  otherwise the \<^verbatim>\<open>Inspect\<close> text of the result and a newline, or nothing when the result is
  absent.
\<close>

definition line_output ::
  "('lexer, 'parser, 'program) packages \<Rightarrow> externals \<Rightarrow> Environment \<Rightarrow> string \<Rightarrow> string" where
  "line_output P X env line =
     (if Errors P (snd (parse P line)) \<noteq> []
      then MONKEY_FACE @ ''Whoos! We ran into some monkey business here!\<newline>''
           @ '' parser errors:\<newline>''
           @ concat (map (\<lambda>err. [CHR 0x09] @ err @ ''\<newline>'') (Errors P (snd (parse P line))))
      else (case fst (Eval P (fst (parse P line)) env) of
              Some obj \<Rightarrow> Object_Inspect X obj @ ''\<newline>''
            | None \<Rightarrow> []))"

text \<open>
  A session: before each line the prompt, then what the line prints, with the environment
  that the lines before it left behind; a last prompt when the input ends.
\<close>

fun session_output ::
  "('lexer, 'parser, 'program) packages \<Rightarrow> externals \<Rightarrow> Environment \<Rightarrow> string list \<Rightarrow> string" where
  "session_output P X env [] = PROMPT"
| "session_output P X env (line # lines) =
     PROMPT @ line_output P X env line @ session_output P X (line_env P env line) lines"

section \<open>Properties of the standard-library models\<close>

lemma uint64_keeps_bits: "uint64 v = v"
  by (simp add: uint64_def)

lemma sint_eq_iff64: "sint (i :: int64) = sint j \<longleftrightarrow> i = j"
  by (rule word_eq_iff_signed [symmetric])

text \<open>The published test vectors of 64-bit FNV-1a for the empty string, "a" and "foobar".\<close>

lemma fnv64a_test_vectors:
  "fnv64a [] = 0xcbf29ce484222325"
  "fnv64a ''a'' = 0xaf63dc4c8601ec8c"
  "fnv64a ''foobar'' = 0x85944171f73967e8"
  by (simp_all add: fnv64a_def offset64_def prime64_def)

text \<open>Decimal formatting and UTF-8 encoding on examples.\<close>

lemma Sprintf_d_examples:
  "Sprintf_d 0 = ''0''"
  "Sprintf_d 2 = ''2''"
  "Sprintf_d 5 = ''5''"
  "Sprintf_d 1203 = ''1203''"
  "Sprintf_d (- 45) = ''-45''"
  by code_simp+

lemma utf8_string_example: "utf8_string [0x68, 0xE9] = [CHR 0x68, CHR 0xC3, CHR 0xA9]"
  by code_simp

section \<open>Environments\<close>

text \<open>
  C1, as stated, is false. The claim gives an environment an enclosing environment and has
  \<open>Get\<close> continue there when the name is absent from the local store. The struct has no
  such field and \<open>Get\<close> reads the local store only: with \<open>x\<close> bound in an enclosing scope
  and not locally, the described lookup finds it, \<open>Get\<close> on the local scope does not.
\<close>

theorem Get_does_not_walk_outward:
  "Get (innermost (ChainedEnvironment \<lparr>store = Map.empty\<rparr>
          (Some (ChainedEnvironment \<lparr>store = [''x'' \<mapsto> Integer 1]\<rparr> None)))) ''x''
   \<noteq> Get_chained (ChainedEnvironment \<lparr>store = Map.empty\<rparr>
          (Some (ChainedEnvironment \<lparr>store = [''x'' \<mapsto> Integer 1]\<rparr> None))) ''x''"
  by (simp add: Get_def)

text \<open>
  C1, amended: an environment holds a local store and nothing else; \<open>Get\<close> looks the name up
  in that store alone, which is the described lookup on a chain with no enclosing
  environment, and it reports \<open>found\<close> exactly for the names of the local store, with the
  stored object.
\<close>

theorem Get_local_store_only:
  "Get e name = Get_chained (ChainedEnvironment e None) name
   \<and> Get e name = (store e name, name \<in> dom (store e))
   \<and> e = \<lparr>store = store e\<rparr>"
  by (cases "store e name") (simp_all add: Get_def dom_def)

text \<open>
  C7: \<open>Set\<close> returns the value it was given, and \<open>Get\<close> of the same name on the environment
  after the call returns that value and \<open>true\<close>, whether or not the name was bound before;
  the call changes the local store at that one name and nothing else of the environment
  (which has no outer scope to write to).
\<close>

theorem Set_then_Get:
  "fst (Set e n v) = v
   \<and> Get (snd (Set e n v)) n = (Some v, True)
   \<and> snd (Set e n v) = \<lparr>store = (store e)(n \<mapsto> v)\<rparr>"
  by (simp add: Set_def Get_def)

text \<open>
  C9: \<open>Set\<close> of one name leaves every other name as it was: \<open>Get\<close> of a different name
  returns the same pair after the call as before.
\<close>

theorem Set_frame:
  "m \<noteq> n \<Longrightarrow> Get (snd (Set e n v)) m = Get e m"
  by (simp add: Set_def Get_def)

theorem Set_frame_witness:
  "''b'' \<noteq> ''a''
   \<and> Get (snd (Set \<lparr>store = [''b'' \<mapsto> Integer 2]\<rparr> ''a'' (Integer 1))) ''b'' = (Some (Integer 2), True)
   \<and> Get (snd (Set \<lparr>store = [''b'' \<mapsto> Integer 2]\<rparr> ''a'' (Integer 1))) ''c'' = (None, False)"
  using Set_frame [of "''b''" "''a''" "\<lparr>store = [''b'' \<mapsto> Integer 2]\<rparr>" "Integer 1"]
    Set_frame [of "''c''" "''a''" "\<lparr>store = [''b'' \<mapsto> Integer 2]\<rparr>" "Integer 1"]
  by (simp add: Get_def)

section \<open>Hash keys\<close>

lemma Integer_HashKey_eq_iff: "Integer_HashKey i = Integer_HashKey j \<longleftrightarrow> sint i = sint j"
  by (simp add: Integer_HashKey_def uint64_keeps_bits sint_eq_iff64)

lemma Integer_HashKey_Value: "uint (Value (Integer_HashKey i)) = sint i mod 2 ^ 64"
  by (simp add: Integer_HashKey_def uint64_keeps_bits uint_sint take_bit_eq_mod)

lemma Boolean_HashKey_eq_iff: "Boolean_HashKey b = Boolean_HashKey c \<longleftrightarrow> b = c"
  by (simp add: Boolean_HashKey_def)

text \<open>
  C3: two objects with the same type and the same value have the same \<open>HashKey\<close>; for two
  strings with the same text it is the key with the tag \<^verbatim>\<open>STRING\<close> and the 64-bit FNV-1a
  hash of the text.
\<close>

theorem equal_objects_same_HashKey:
  "semantically_equal a b \<Longrightarrow>
     (\<exists>k. Hashable_HashKey a = Some k \<and> Hashable_HashKey b = Some k)
     \<and> (\<forall>s t. a = String s \<and> b = String t \<longrightarrow>
           Hashable_HashKey a = Some \<lparr>Type = STRING_OBJ, Value = fnv64a s\<rparr>
         \<and> Hashable_HashKey b = Some \<lparr>Type = STRING_OBJ, Value = fnv64a s\<rparr>)"
  by (cases a; cases b)
    (simp_all add: semantically_equal_def String_HashKey_def sint_eq_iff64)

theorem equal_objects_same_HashKey_witness:
  "semantically_equal (String ''foobar'') (String ''foobar'')
   \<and> Hashable_HashKey (String ''foobar'') = Some \<lparr>Type = ''STRING'', Value = 0x85944171f73967e8\<rparr>"
  using equal_objects_same_HashKey [of "String ''foobar''" "String ''foobar''"]
  by (simp add: semantically_equal_def STRING_OBJ_def fnv64a_test_vectors)

text \<open>
  C4: integers with different values have different keys, and the same value has the same
  key: the key's value is the integer modulo \<open>2 ^ 64\<close>, and the conversion loses nothing.
  The keys of \<open>true\<close> and \<open>false\<close> are 1 and 0. The key of an integer and the key of a
  boolean differ in the type tag. So among integers and booleans, two objects have the
  same key only if they are the same object.
\<close>

theorem distinct_values_distinct_HashKeys:
  "(Integer_HashKey i = Integer_HashKey j \<longleftrightarrow> sint i = sint j)
   \<and> (uint64 i = uint64 j \<longleftrightarrow> sint i = sint j)
   \<and> uint (Value (Integer_HashKey i)) = sint i mod 2 ^ 64
   \<and> Boolean_HashKey True \<noteq> Boolean_HashKey False
   \<and> Value (Boolean_HashKey True) = 1 \<and> Value (Boolean_HashKey False) = 0
   \<and> Type (Integer_HashKey i) \<noteq> Type (Boolean_HashKey b)
   \<and> Hashable_HashKey (Integer i) \<noteq> Hashable_HashKey (Boolean b)
   \<and> (Hashable_HashKey (Integer i) = Hashable_HashKey (Integer j) \<longleftrightarrow> Integer i = Integer j)
   \<and> (Hashable_HashKey (Boolean b) = Hashable_HashKey (Boolean c) \<longleftrightarrow> Boolean b = Boolean c)"
  by (simp add: Integer_HashKey_eq_iff Integer_HashKey_Value Boolean_HashKey_eq_iff
      uint64_keeps_bits sint_eq_iff64)
    (simp add: Integer_HashKey_def Boolean_HashKey_def INTEGER_OBJ_def BOOLEAN_OBJ_def)

section \<open>Built-in functions\<close>

lemma and_then_Inr [simp]: "and_then (Inr v) f = f v"
  by (simp add: and_then_def)

lemma and_then_Inl [simp]: "and_then (Inl p) f = Inl p"
  by (simp add: and_then_def)

lemma len_Nil [simp]: "len [] = 0"
  by (simp add: len_def)

lemma len_singleton [simp]: "len [x] = 1"
  by (simp add: len_def)

lemma len_pair [simp]: "len [x, y] = 2"
  by (simp add: len_def)

lemma len_nonneg [simp]: "0 \<le> len xs"
  by (simp add: len_def)

lemma len_eq_0 [simp]: "len xs = 0 \<longleftrightarrow> xs = []"
  by (simp add: len_def)

lemma len_le_0 [simp]: "len xs \<le> 0 \<longleftrightarrow> xs = []"
  by (simp add: len_def)

lemma index_0 [simp]: "index (x # xs) 0 = Inr x"
  by (simp add: index_def len_def)

lemma index_1 [simp]: "index (x # y # ys) 1 = Inr y"
  by (simp add: index_def len_def)

lemma index_last: "xs \<noteq> [] \<Longrightarrow> index xs (len xs - 1) = Inr (last xs)"
  by (cases xs rule: rev_cases) (simp_all add: index_def len_def nat_diff_distrib' nth_append)

lemma copy_replicate: "copy (replicate (length xs + k) z) xs = xs @ replicate k z"
  by (simp add: copy_def)

lemma new_Array_slice_of [simp]: "new_Array (slice_of es) = Inr (Array es)"
  by (simp add: new_Array_def slice_of_def comp_def image_iff)

lemma make_slice_int [simp]: "make_slice (int n) = Inr (replicate n None)"
  by (simp add: make_slice_def)

lemma make_slice_Suc: "make_slice (len a + 1) = Inr (replicate (Suc (length a)) None)"
  by (simp add: make_slice_def len_def nat_add_distrib)

lemma copy_make_Suc: "copy (replicate (Suc (length a)) None) (slice_of a) = slice_of a @ [None]"
proof -
  have "copy (replicate (length (slice_of a) + 1) None) (slice_of a) = slice_of a @ replicate 1 None"
    by (rule copy_replicate)
  then show ?thesis
    by (simp add: slice_of_def)
qed

lemma assign_end: "assign (slice_of a @ [None]) (len a) (Some x) = Inr (slice_of (a @ [x]))"
proof -
  have "(slice_of a @ [None])[length (slice_of a) := Some x] = slice_of a @ [Some x]"
    by (rule list_update_length)
  then show ?thesis
    by (simp add: assign_def len_def slice_of_def)
qed

lemma push_Array:
  "args s = [Some (Array a), Some x] \<Longrightarrow> builtin_push s = Inr (Array (a @ [x]), s)"
  by (simp add: builtin_push_def Let_def make_slice_Suc copy_make_Suc assign_end del: replicate_Suc)

lemma rest_Array:
  "args s = [Some (Array a)] \<Longrightarrow>
   builtin_rest s = Inr (case a of [] \<Rightarrow> NULL | x # xs \<Rightarrow> Array xs, s)"
proof (cases a)
  case Nil
  assume "args s = [Some (Array a)]"
  with Nil show ?thesis by (simp add: builtin_rest_def)
next
  case (Cons x xs)
  assume a: "args s = [Some (Array a)]"
  have t: "slice_from (slice_of (x # xs)) 1 = Inr (slice_of xs)"
    by (simp add: slice_from_def slice_of_def len_def)
  have c: "copy (replicate (length xs) None) (slice_of xs) = slice_of xs"
    by (simp add: copy_def slice_of_def)
  show ?thesis
    using Cons a by (simp add: builtin_rest_def Let_def t c len_def)
qed

lemma len_eq_1_iff: "len xs = 1 \<longleftrightarrow> (\<exists>a. xs = [a])"
  by (cases xs) (simp_all add: len_def)

lemma len_eq_2_iff: "len xs = 2 \<longleftrightarrow> (\<exists>a b. xs = [a, b])"
proof (cases xs)
  case Nil
  then show ?thesis by simp
next
  case (Cons a ys)
  then show ?thesis by (cases ys) (simp_all add: len_def)
qed

lemma first_Array:
  "args s = [Some (Array a)] \<Longrightarrow>
   builtin_first s = Inr (case a of [] \<Rightarrow> NULL | x # xs \<Rightarrow> x, s)"
  by (cases a) (simp_all add: builtin_first_def)

lemma last_Array:
  "args s = [Some (Array a)] \<Longrightarrow> builtin_last s = Inr (if a = [] then NULL else last a, s)"
  by (simp add: builtin_last_def index_last)

lemma len_String:
  "args s = [Some (String v)] \<Longrightarrow> builtin_len s = Inr (Integer (int64 (int (length v))), s)"
  by (simp add: builtin_len_def len_def)

lemma len_Array:
  "args s = [Some (Array a)] \<Longrightarrow> builtin_len s = Inr (Integer (int64 (int (length a))), s)"
  by (simp add: builtin_len_def len_def)

lemma len_arity:
  "len (args s) \<noteq> 1 \<Longrightarrow> \<exists>message. builtin_len s = Inr (Error message, s)"
  by (simp add: builtin_len_def newError_def)

lemma first_arity:
  "len (args s) \<noteq> 1 \<Longrightarrow> \<exists>message. builtin_first s = Inr (Error message, s)"
  by (simp add: builtin_first_def newError_def)

lemma last_arity:
  "len (args s) \<noteq> 1 \<Longrightarrow> \<exists>message. builtin_last s = Inr (Error message, s)"
  by (simp add: builtin_last_def newError_def)

lemma rest_arity:
  "len (args s) \<noteq> 1 \<Longrightarrow> \<exists>message. builtin_rest s = Inr (Error message, s)"
  by (simp add: builtin_rest_def newError_def)

lemma push_arity:
  "len (args s) \<noteq> 2 \<Longrightarrow> \<exists>message. builtin_push s = Inr (Error message, s)"
  by (simp add: builtin_push_def newError_def)

lemma call_Type_Some [simp]: "call_Type (Some obj) = Inr (Object_Type obj)"
  by (simp add: call_Type_def)

lemma call_Type_None [simp]: "call_Type None = Inl nil_dereference"
  by (simp add: call_Type_def)

lemma len_unsupported:
  "args s = [Some a] \<Longrightarrow> \<forall>v. a \<noteq> String v \<Longrightarrow> \<forall>es. a \<noteq> Array es \<Longrightarrow>
   builtin_len s = Inr (Error (''argument to `len` not supported, got '' @ Object_Type a), s)"
  by (cases a) (simp_all add: builtin_len_def newError_def)

lemma first_unsupported:
  "args s = [Some a] \<Longrightarrow> \<forall>es. a \<noteq> Array es \<Longrightarrow>
   builtin_first s = Inr (Error (''argument to `first` must be ARRAY, got '' @ Object_Type a), s)"
  by (cases a) (simp_all add: builtin_first_def newError_def)

lemma last_unsupported:
  "args s = [Some a] \<Longrightarrow> \<forall>es. a \<noteq> Array es \<Longrightarrow>
   builtin_last s = Inr (Error (''argument to `last` must be ARRAY, got '' @ Object_Type a), s)"
  by (cases a) (simp_all add: builtin_last_def newError_def)

lemma rest_unsupported:
  "args s = [Some a] \<Longrightarrow> \<forall>es. a \<noteq> Array es \<Longrightarrow>
   builtin_rest s = Inr (Error (''argument to `rest` must be ARRAY, got '' @ Object_Type a), s)"
  by (cases a) (simp_all add: builtin_rest_def newError_def)

lemma push_unsupported:
  "args s = [Some a, x] \<Longrightarrow> \<forall>es. a \<noteq> Array es \<Longrightarrow>
   builtin_push s = Inr (Error (''argument to `push` must be ARRAY, got '' @ Object_Type a), s)"
  by (cases a) (simp_all add: builtin_push_def newError_def)

text \<open>A nil argument reaches the method call of the default branch, or of the loop of \<open>puts\<close>.\<close>

lemma len_nil: "args s = [None] \<Longrightarrow> builtin_len s = Inl nil_dereference"
  by (simp add: builtin_len_def)

lemma first_nil: "args s = [None] \<Longrightarrow> builtin_first s = Inl nil_dereference"
  by (simp add: builtin_first_def)

lemma last_nil: "args s = [None] \<Longrightarrow> builtin_last s = Inl nil_dereference"
  by (simp add: builtin_last_def)

lemma rest_nil: "args s = [None] \<Longrightarrow> builtin_rest s = Inl nil_dereference"
  by (simp add: builtin_rest_def)

lemma push_nil: "args s = [None, x] \<Longrightarrow> builtin_push s = Inl nil_dereference"
  by (simp add: builtin_push_def)

lemma puts_range_objects:
  "puts_range X out (map Some objs)
   = Inr (out @ concat (map (\<lambda>obj. Object_Inspect X obj @ ''\<newline>'') objs))"
  by (induction objs arbitrary: out) (simp_all add: call_Inspect_def Println_def)

lemma puts_range_nil: "None \<in> set xs \<Longrightarrow> puts_range X out xs = Inl nil_dereference"
proof (induction xs arbitrary: out)
  case Nil
  then show ?case by simp
next
  case (Cons x xs)
  then show ?case by (cases x) (auto simp: call_Inspect_def)
qed

lemma puts_writes:
  "args s = map Some objs \<Longrightarrow>
   builtin_puts X s =
     Inr (NULL, s\<lparr>stdout := stdout s @ concat (map (\<lambda>obj. Object_Inspect X obj @ ''\<newline>'') objs)\<rparr>)"
  by (simp add: builtin_puts_def puts_range_objects)

lemma puts_nil: "None \<in> set (args s) \<Longrightarrow> builtin_puts X s = Inl nil_dereference"
  by (simp add: builtin_puts_def puts_range_nil)

lemma builtins_dom: "dom builtins = {''puts'', ''len'', ''first'', ''last'', ''rest'', ''push''}"
  by (auto simp: builtins_def split: if_splits)

text \<open>
  On arguments none of which is nil, every function of the table returns: a wrong number
  of arguments and a first argument of an unsupported type give an \<^verbatim>\<open>Error\<close> object, and
  no index is out of range.
\<close>

lemma objects_map_Some: "None \<notin> set xs \<Longrightarrow> \<exists>objs. xs = map Some objs"
proof (induction xs)
  case Nil
  then show ?case by simp
next
  case (Cons x xs)
  then obtain objs where "xs = map Some objs" by auto
  moreover from Cons.prems obtain obj where "x = Some obj" by (cases x) auto
  ultimately have "x # xs = map Some (obj # objs)" by simp
  then show ?case by (rule exI)
qed

lemma objects_1: "None \<notin> set xs \<Longrightarrow> len xs = 1 \<Longrightarrow> \<exists>a. xs = [Some a]"
proof -
  assume n: "None \<notin> set xs" and "len xs = 1"
  then obtain x where x: "xs = [x]" by (auto simp: len_eq_1_iff)
  with n obtain a where "x = Some a" by (cases x) auto
  with x show ?thesis by simp
qed

lemma objects_2: "None \<notin> set xs \<Longrightarrow> len xs = 2 \<Longrightarrow> \<exists>a b. xs = [Some a, Some b]"
proof -
  assume n: "None \<notin> set xs" and "len xs = 2"
  then obtain x y where x: "xs = [x, y]" by (auto simp: len_eq_2_iff)
  with n obtain a where a: "x = Some a" by (cases x) auto
  from x n obtain b where "y = Some b" by (cases y) auto
  with x a show ?thesis by simp
qed

lemma builtin_len_total: "None \<notin> set (args s) \<Longrightarrow> \<exists>obj. builtin_len s = Inr (obj, s)"
proof (cases "len (args s) = 1")
  case False
  then show ?thesis using len_arity [of s] by blast
next
  case True
  assume "None \<notin> set (args s)"
  with True obtain a where a: "args s = [Some a]" using objects_1 [of "args s"] by blast
  show ?thesis
  proof (cases "(\<exists>v. a = String v) \<or> (\<exists>es. a = Array es)")
    case True
    then show ?thesis using a len_String [of s] len_Array [of s] by blast
  next
    case False
    then show ?thesis using a len_unsupported [of s a] by blast
  qed
qed

lemma builtin_first_total: "None \<notin> set (args s) \<Longrightarrow> \<exists>obj. builtin_first s = Inr (obj, s)"
proof (cases "len (args s) = 1")
  case False
  then show ?thesis using first_arity [of s] by blast
next
  case True
  assume "None \<notin> set (args s)"
  with True obtain a where a: "args s = [Some a]" using objects_1 [of "args s"] by blast
  show ?thesis
  proof (cases "\<exists>es. a = Array es")
    case True
    then show ?thesis using a first_Array [of s] by blast
  next
    case False
    then show ?thesis using a first_unsupported [of s a] by blast
  qed
qed

lemma builtin_last_total: "None \<notin> set (args s) \<Longrightarrow> \<exists>obj. builtin_last s = Inr (obj, s)"
proof (cases "len (args s) = 1")
  case False
  then show ?thesis using last_arity [of s] by blast
next
  case True
  assume "None \<notin> set (args s)"
  with True obtain a where a: "args s = [Some a]" using objects_1 [of "args s"] by blast
  show ?thesis
  proof (cases "\<exists>es. a = Array es")
    case True
    then show ?thesis using a last_Array [of s] by blast
  next
    case False
    then show ?thesis using a last_unsupported [of s a] by blast
  qed
qed

lemma builtin_rest_total: "None \<notin> set (args s) \<Longrightarrow> \<exists>obj. builtin_rest s = Inr (obj, s)"
proof (cases "len (args s) = 1")
  case False
  then show ?thesis using rest_arity [of s] by blast
next
  case True
  assume "None \<notin> set (args s)"
  with True obtain a where a: "args s = [Some a]" using objects_1 [of "args s"] by blast
  show ?thesis
  proof (cases "\<exists>es. a = Array es")
    case True
    then show ?thesis using a rest_Array [of s] by blast
  next
    case False
    then show ?thesis using a rest_unsupported [of s a] by blast
  qed
qed

lemma builtin_push_total: "None \<notin> set (args s) \<Longrightarrow> \<exists>obj. builtin_push s = Inr (obj, s)"
proof (cases "len (args s) = 2")
  case False
  then show ?thesis using push_arity [of s] by blast
next
  case True
  assume "None \<notin> set (args s)"
  with True obtain a x where a: "args s = [Some a, Some x]" using objects_2 [of "args s"] by blast
  show ?thesis
  proof (cases "\<exists>es. a = Array es")
    case True
    then show ?thesis using a push_Array [of s] by blast
  next
    case False
    then show ?thesis using a push_unsupported [of s a "Some x"] by blast
  qed
qed

lemma builtin_puts_total: "None \<notin> set (args s) \<Longrightarrow> \<exists>s'. builtin_puts X s = Inr (NULL, s')"
  using objects_map_Some [of "args s"] puts_writes [of s _ X] by blast

lemma Fn_total: "None \<notin> set (args s) \<Longrightarrow> \<exists>obj s'. Fn X f s = Inr (obj, s')"
proof (cases f)
  case puts_Fn
  assume "None \<notin> set (args s)"
  with puts_Fn show ?thesis using builtin_puts_total [of s X] by auto
next
  case len_Fn
  assume "None \<notin> set (args s)"
  with len_Fn show ?thesis using builtin_len_total [of s] by auto
next
  case first_Fn
  assume "None \<notin> set (args s)"
  with first_Fn show ?thesis using builtin_first_total [of s] by auto
next
  case last_Fn
  assume "None \<notin> set (args s)"
  with last_Fn show ?thesis using builtin_last_total [of s] by auto
next
  case rest_Fn
  assume "None \<notin> set (args s)"
  with rest_Fn show ?thesis using builtin_rest_total [of s] by auto
next
  case push_Fn
  assume "None \<notin> set (args s)"
  with push_Fn show ?thesis using builtin_push_total [of s] by auto
qed

lemma Fn_arity:
  "f \<noteq> puts_Fn \<Longrightarrow> len (args s) \<noteq> (if f = push_Fn then 2 else 1) \<Longrightarrow>
   \<exists>message. Fn X f s = Inr (Error message, s)"
  by (cases f) (simp_all add: len_arity first_arity last_arity rest_arity push_arity)

lemma Fn_unsupported:
  "f \<noteq> puts_Fn \<Longrightarrow> args s = Some a # xs \<Longrightarrow> len (args s) = (if f = push_Fn then 2 else 1) \<Longrightarrow>
   \<forall>es. a \<noteq> Array es \<Longrightarrow> f = len_Fn \<longrightarrow> (\<forall>v. a \<noteq> String v) \<Longrightarrow>
   \<exists>message. Fn X f s = Inr (Error message, s)"
proof (cases f)
  case push_Fn
  assume "args s = Some a # xs" "len (args s) = (if f = push_Fn then 2 else 1)" "\<forall>es. a \<noteq> Array es"
  with push_Fn obtain x where "args s = [Some a, x]" by (auto simp: len_eq_2_iff)
  with \<open>\<forall>es. a \<noteq> Array es\<close> push_Fn show ?thesis by (simp add: push_unsupported)
qed (auto simp: len_eq_1_iff len_unsupported first_unsupported last_unsupported rest_unsupported)

lemma builtins_return_on_objects:
  "builtins name = Some f \<Longrightarrow> None \<notin> set (args s) \<Longrightarrow>
     (\<exists>obj s'. Fn X f s = Inr (obj, s'))
   \<and> (f \<noteq> puts_Fn \<and> len (args s) \<noteq> (if f = push_Fn then 2 else 1)
        \<longrightarrow> (\<exists>message. Fn X f s = Inr (Error message, s)))
   \<and> (\<forall>a xs. f \<noteq> puts_Fn \<and> args s = Some a # xs \<and> len (args s) = (if f = push_Fn then 2 else 1)
          \<and> (\<forall>es. a \<noteq> Array es) \<and> (f = len_Fn \<longrightarrow> (\<forall>v. a \<noteq> String v))
        \<longrightarrow> (\<exists>message. Fn X f s = Inr (Error message, s)))"
  using Fn_total [of s X f] Fn_arity [of f s X] Fn_unsupported [of f s _ _ X] by blast

lemma builtins_return_on_objects_examples:
  "Fn X first_Fn \<lparr>args = [], stdout = []\<rparr>
     = Inr (Error ''wrong number of arguments. got=0. want=1'', \<lparr>args = [], stdout = []\<rparr>)"
  "Fn X first_Fn \<lparr>args = [Some (Array [])], stdout = []\<rparr>
     = Inr (Null, \<lparr>args = [Some (Array [])], stdout = []\<rparr>)"
  "Fn X first_Fn \<lparr>args = [Some (Integer 1)], stdout = []\<rparr>
     = Inr (Error ''argument to `first` must be ARRAY, got INTEGER'', \<lparr>args = [Some (Integer 1)], stdout = []\<rparr>)"
  "Fn X puts_Fn \<lparr>args = [Some (String ''hello''), Some (Array [Integer 5, Boolean True, Null])], stdout = []\<rparr>
     = Inr (Null, \<lparr>args = [Some (String ''hello''), Some (Array [Integer 5, Boolean True, Null])],
                  stdout = ''hello\<newline>[5, true, null]\<newline>''\<rparr>)"
  by (simp_all add: builtin_first_def builtin_puts_def call_Inspect_def Println_def newError_def
      NULL_def Sprintf_d_examples Sprintf_t_def INTEGER_OBJ_def)

lemma EncodeRune_length_ge: "1 \<le> length (EncodeRune r)"
  by (simp add: EncodeRune_def)

lemma EncodeRune_length_1_iff: "length (EncodeRune r) = 1 \<longleftrightarrow> 0 \<le> r \<and> r \<le> 0x7F"
  by (simp add: EncodeRune_def)

lemma utf8_string_Cons: "utf8_string (r # runes) = EncodeRune r @ utf8_string runes"
  by (simp add: utf8_string_def)

lemma utf8_string_length_ge: "length runes \<le> length (utf8_string runes)"
proof (induction runes)
  case Nil
  show ?case by (simp add: utf8_string_def)
next
  case (Cons r runes)
  then show ?case
    using EncodeRune_length_ge [of r] by (simp add: utf8_string_Cons)
qed

lemma utf8_string_length_gt_iff:
  "length runes < length (utf8_string runes) \<longleftrightarrow> (\<exists>r\<in>set runes. r < 0 \<or> 0x7F < r)"
proof (induction runes)
  case Nil
  show ?case by (simp add: utf8_string_def)
next
  case (Cons r runes)
  show ?case
  proof (cases "0 \<le> r \<and> r \<le> 0x7F")
    case True
    then have "length (EncodeRune r) = 1" using EncodeRune_length_1_iff [of r] by simp
    with True Cons show ?thesis by (auto simp: utf8_string_Cons)
  next
    case False
    then have "length (EncodeRune r) \<noteq> 1" using EncodeRune_length_1_iff [of r] by simp
    with EncodeRune_length_ge [of r] have "2 \<le> length (EncodeRune r)" by linarith
    with False utf8_string_length_ge [of runes] show ?thesis
      by (auto simp: utf8_string_Cons)
  qed
qed

lemma sint_int64_length: "n < 2 ^ 63 \<Longrightarrow> sint (int64 (int n)) = int n"
proof -
  assume n: "n < 2 ^ 63"
  have "sint (word_of_int (int n) :: int64) = signed_take_bit 63 (int n)"
    by (simp only: sint_sbintrunc') simp
  also have "\<dots> = int n"
    using n by (intro signed_take_bit_int_eq_self) simp_all
  finally show ?thesis
    by (simp only: int64_def)
qed



text \<open>
  C2: \<open>push\<close> with the two arguments \<open>(a, x)\<close> returns an array whose elements are those of
  \<open>a\<close>, in order, followed by \<open>x\<close>; the arguments are after the call what they were
  before it, so the elements of \<open>a\<close> are unchanged, and nothing is written to standard
  output.
\<close>

theorem push_appends_without_mutation:
  "builtins ''push'' = Some push_Fn
   \<and> Fn X push_Fn \<lparr>args = [Some (Array a), Some x], stdout = out\<rparr>
       = Inr (Array (a @ [x]), \<lparr>args = [Some (Array a), Some x], stdout = out\<rparr>)"
  by (simp add: builtins_def push_Array)

text \<open>
  C5 fails on the code at a nil argument. The claim has every function of the table
  return an object on every list of arguments, without crashing. An argument can be the
  nil interface, and then no function returns: \<open>len\<close>, \<open>first\<close>, \<open>last\<close>, \<open>rest\<close> and
  \<open>push\<close> take the default branch of the type switch and call \<^verbatim>\<open>Type\<close> on nil to format
  the error message, and \<open>puts\<close> calls \<^verbatim>\<open>Inspect\<close> on nil; each is a nil dereference.
\<close>

theorem builtins_panic_on_nil_argument:
  "builtins ''len'' = Some len_Fn
   \<and> Fn X len_Fn \<lparr>args = [None], stdout = out\<rparr> = Inl nil_dereference
   \<and> Fn X first_Fn \<lparr>args = [None], stdout = out\<rparr> = Inl nil_dereference
   \<and> Fn X last_Fn \<lparr>args = [None], stdout = out\<rparr> = Inl nil_dereference
   \<and> Fn X rest_Fn \<lparr>args = [None], stdout = out\<rparr> = Inl nil_dereference
   \<and> Fn X push_Fn \<lparr>args = [None, x], stdout = out\<rparr> = Inl nil_dereference
   \<and> Fn X puts_Fn \<lparr>args = [None], stdout = out\<rparr> = Inl nil_dereference"
  by (simp add: builtins_def len_nil first_nil last_nil rest_nil push_nil puts_nil)

text \<open>
  C6: on a single array argument, \<open>first\<close> returns the first element and \<open>last\<close> the
  final element of a non-empty array, \<open>rest\<close> returns an array of the elements after the
  first, in order, and each returns Null on the empty array.
\<close>

theorem first_last_rest_of_Array:
  "Fn X first_Fn \<lparr>args = [Some (Array [])], stdout = out\<rparr>
       = Inr (Null, \<lparr>args = [Some (Array [])], stdout = out\<rparr>)
   \<and> Fn X first_Fn \<lparr>args = [Some (Array (x # xs))], stdout = out\<rparr>
       = Inr (x, \<lparr>args = [Some (Array (x # xs))], stdout = out\<rparr>)
   \<and> Fn X last_Fn \<lparr>args = [Some (Array [])], stdout = out\<rparr>
       = Inr (Null, \<lparr>args = [Some (Array [])], stdout = out\<rparr>)
   \<and> Fn X last_Fn \<lparr>args = [Some (Array (xs @ [x]))], stdout = out\<rparr>
       = Inr (x, \<lparr>args = [Some (Array (xs @ [x]))], stdout = out\<rparr>)
   \<and> Fn X rest_Fn \<lparr>args = [Some (Array [])], stdout = out\<rparr>
       = Inr (Null, \<lparr>args = [Some (Array [])], stdout = out\<rparr>)
   \<and> Fn X rest_Fn \<lparr>args = [Some (Array (x # xs))], stdout = out\<rparr>
       = Inr (Array xs, \<lparr>args = [Some (Array (x # xs))], stdout = out\<rparr>)
   \<and> length xs = length (x # xs) - 1"
  by (simp add: first_Array last_Array rest_Array NULL_def)

text \<open>
  C10: \<open>len\<close> of a string is the number of its bytes. The string of a text has at least as
  many bytes as the text has characters, and more exactly when a character of the text is
  outside the one-byte range, so that \<open>len\<close> then exceeds the number of characters.
\<close>

theorem len_of_String_counts_bytes:
  "Fn X len_Fn \<lparr>args = [Some (String s)], stdout = out\<rparr>
     = Inr (Integer (int64 (int (length s))), \<lparr>args = [Some (String s)], stdout = out\<rparr>)
   \<and> (length s < 2 ^ 63 \<longrightarrow> sint (int64 (int (length s))) = int (length s))
   \<and> length runes \<le> length (utf8_string runes)
   \<and> ((\<exists>r\<in>set runes. r < 0 \<or> 0x7F < r) \<longrightarrow> length runes < length (utf8_string runes))
   \<and> ((\<forall>r\<in>set runes. 0 \<le> r \<and> r \<le> 0x7F) \<longrightarrow> length runes = length (utf8_string runes))"
proof -
  have "length runes = length (utf8_string runes)" if "\<forall>r\<in>set runes. 0 \<le> r \<and> r \<le> 0x7F"
    using that utf8_string_length_gt_iff [of runes] utf8_string_length_ge [of runes] by fastforce
  then show ?thesis
    by (simp add: len_String sint_int64_length utf8_string_length_ge utf8_string_length_gt_iff)
qed

theorem len_of_String_counts_bytes_witness:
  "utf8_string [0x68, 0xE9] = [CHR 0x68, CHR 0xC3, CHR 0xA9]
   \<and> Fn \<lparr>Identifier_String = (\<lambda>p. []), BlockStatement_String = (\<lambda>p. []), Sprintf_v = (\<lambda>obj. [])\<rparr>
        len_Fn \<lparr>args = [Some (String (utf8_string [0x68, 0xE9]))], stdout = []\<rparr>
       = Inr (Integer 3, \<lparr>args = [Some (String (utf8_string [0x68, 0xE9]))], stdout = []\<rparr>)
   \<and> sint (3 :: int64) = 3
   \<and> length [0x68, 0xE9 :: int] < length (utf8_string [0x68, 0xE9])"
  using len_of_String_counts_bytes [of
      "\<lparr>Identifier_String = (\<lambda>p. []), BlockStatement_String = (\<lambda>p. []), Sprintf_v = (\<lambda>obj. [])\<rparr>"
      "utf8_string [0x68, 0xE9]" "[]" "[0x68, 0xE9]"]
  by (simp add: utf8_string_example int64_def)

section \<open>The read-eval-print loop\<close>

lemma MONKEY_FACE_length: "length MONKEY_FACE = 273"
  by (simp add: MONKEY_FACE_def)

lemma foldl_errors:
  "foldl (\<lambda>out err. out @ [CHR 0x09] @ err @ ''\<newline>'') out errors
   = out @ concat (map (\<lambda>err. [CHR 0x09] @ err @ ''\<newline>'') errors)"
  by (induction errors arbitrary: out) simp_all

lemma printParserErrors_all:
  "printParserErrors out errors =
     out @ MONKEY_FACE @ ''Whoos! We ran into some monkey business here!\<newline>''
     @ '' parser errors:\<newline>'' @ concat (map (\<lambda>err. [CHR 0x09] @ err @ ''\<newline>'') errors)"
  unfolding printParserErrors_def Let_def foldl_errors by simp

lemma loop_line:
  "loop P X env out (line # lines) =
     loop P X (line_env P env line) (out @ PROMPT @ line_output P X env line) lines"
  by (simp add: line_env_def line_output_def parse_def printParserErrors_all Let_def len_def
        split: prod.splits option.splits)

lemma loop_env: "fst (loop P X env out lines) = foldl (line_env P) env lines"
proof (induction lines arbitrary: env out)
  case Nil
  show ?case by simp
next
  case (Cons line lines)
  show ?case unfolding loop_line by (simp add: Cons.IH)
qed

lemma loop_output: "snd (loop P X env out lines) = out @ session_output P X env lines"
proof (induction lines arbitrary: env out)
  case Nil
  show ?case by simp
next
  case (Cons line lines)
  show ?case unfolding loop_line by (simp add: Cons.IH)
qed

text \<open>
  C8: the loop does for each line what the specification describes. A line's program is
  parsed by a fresh parser over a fresh lexer; with parse errors the line prints them all
  and leaves the environment as it is, the program not being evaluated; without, the
  program is evaluated against the environment, and the \<^verbatim>\<open>Inspect\<close> text of the result is
  printed with a newline, or nothing if there is no result. The environment is made once,
  when the session starts, and each line starts from the one the line before left.
\<close>

theorem Start_runs_the_described_session:
  "Start P X input out = out @ session_output P X NewEnvironment input
   \<and> loop P X env out (line # lines)
       = loop P X (line_env P env line) (out @ PROMPT @ line_output P X env line) lines
   \<and> fst (loop P X env out lines) = foldl (line_env P) env lines
   \<and> line_env P env line
       = (if Errors P (snd (ParseProgram P (parser_New P (lexer_New P line)))) \<noteq> [] then env
          else snd (Eval P (fst (ParseProgram P (parser_New P (lexer_New P line)))) env))"
proof (intro conjI)
  show "Start P X input out = out @ session_output P X NewEnvironment input"
    by (simp add: Start_def loop_output)
  show "loop P X env out (line # lines)
      = loop P X (line_env P env line) (out @ PROMPT @ line_output P X env line) lines"
    by (rule loop_line)
  show "fst (loop P X env out lines) = foldl (line_env P) env lines"
    by (rule loop_env)
  show "line_env P env line
      = (if Errors P (snd (ParseProgram P (parser_New P (lexer_New P line)))) \<noteq> [] then env
         else snd (Eval P (fst (ParseProgram P (parser_New P (lexer_New P line)))) env))"
    by (simp add: line_env_def parse_def)
qed



theorem Start_runs_the_described_session_witness:
  "Start
     \<lparr>lexer_New = (\<lambda>line. line),
      parser_New = (\<lambda>l. (l, [])),
      ParseProgram = (\<lambda>p. (fst p, (fst p, if fst p = ''let x = 5 +'' then [''no prefix parse function'', ''expected next token''] else []))),
      Errors = snd,
      Eval = (\<lambda>program env.
        if program = ''let x = 5;'' then (None, snd (Set env ''x'' (Integer 5)))
        else (fst (Get env program), env))\<rparr>
     \<lparr>Identifier_String = (\<lambda>p. []), BlockStatement_String = (\<lambda>p. []), Sprintf_v = (\<lambda>obj. [])\<rparr>
     [''x'', ''let x = 5 +'', ''let x = 5;'', ''x''] []
   = ''>>'' @ ''>>'' @ MONKEY_FACE @ ''Whoos! We ran into some monkey business here!\<newline>''
     @ '' parser errors:\<newline>'' @ [CHR 0x09] @ ''no prefix parse function\<newline>''
     @ [CHR 0x09] @ ''expected next token\<newline>'' @ ''>>'' @ ''>>'' @ ''5\<newline>'' @ ''>>''"
  using Start_runs_the_described_session [of
     "\<lparr>lexer_New = (\<lambda>line. line),
      parser_New = (\<lambda>l. (l, [])),
      ParseProgram = (\<lambda>p. (fst p, (fst p, if fst p = ''let x = 5 +'' then [''no prefix parse function'', ''expected next token''] else []))),
      Errors = snd,
      Eval = (\<lambda>program env.
        if program = ''let x = 5;'' then (None, snd (Set env ''x'' (Integer 5)))
        else (fst (Get env program), env))\<rparr>"
     "\<lparr>Identifier_String = (\<lambda>p. []), BlockStatement_String = (\<lambda>p. []), Sprintf_v = (\<lambda>obj. [])\<rparr>"
     "[''x'', ''let x = 5 +'', ''let x = 5;'', ''x'']" "[]"]
  by (simp add: line_output_def line_env_def parse_def PROMPT_def NewEnvironment_def Get_def Set_def
      Sprintf_d_examples)


end
